theory Spec2Isabelle
  imports Main "HOL-Library.List_Lexorder"
begin

section \<open>Sort-based aggregate tasks: the data this code inspects\<close>

text \<open>
  The source is \<^verbatim>\<open>python/ray/data/_internal/planner/exchange/aggregate_task_spec.py\<close>:
  the class \<^verbatim>\<open>SortAggregateTaskSpec\<close> with the static methods \<^verbatim>\<open>map\<close>, \<^verbatim>\<open>reduce\<close>
  and \<^verbatim>\<open>_prune_unused_columns\<close>. Everything else it calls (block accessors, aggregate
  functions, execution statistics) lives in other modules; those collaborators are
  parameters of the model below, and a small model of them written from the
  specification is given afterwards.
\<close>

text \<open>Every \<^verbatim>\<open>raise\<close> is a value: a failing call returns \<open>Inl\<close> of the exception.\<close>

datatype error = IndexError | KeyError | ValueError

text \<open>
  The grouping key, \<^verbatim>\<open>Union[str, List[str], None]\<close> in the signature of \<^verbatim>\<open>map\<close>, plus
  the callable that \<^verbatim>\<open>_prune_unused_columns\<close> tests for. The callable itself is opaque
  to this code, so its type is a parameter.
\<close>

datatype 'f group_key = KeyNone | KeyStr string | KeyList "string list" | KeyCallable 'f

text \<open>
  The attribute \<^verbatim>\<open>agg._key_fn\<close> of an \<^verbatim>\<open>_AggregateOnKeyBase\<close>: a column name (a \<^verbatim>\<open>str\<close>)
  or anything else (\<^verbatim>\<open>None\<close>, a callable).
\<close>

datatype key_fn = KeyFnStr string | KeyFnOther

text \<open>
  An \<^verbatim>\<open>AggregateFn\<close> as this code sees it: the two \<^verbatim>\<open>isinstance\<close> tests of the loop in
  \<^verbatim>\<open>_prune_unused_columns\<close>, the attribute \<^verbatim>\<open>_key_fn\<close> (read only under the first test),
  and the implementation (name, init, accumulate, merge, finalize), which only the
  collaborators use.
\<close>

record 'a aggregate_fn =
  is_AggregateOnKeyBase :: bool
  key_fn :: key_fn
  is_Count :: bool
  impl :: 'a

text \<open>
  \<^verbatim>\<open>BlockExecStats.builder()\<close> reads the clock when the task starts and \<^verbatim>\<open>build()\<close> reads
  it again. The two readings are not arguments of \<^verbatim>\<open>map\<close> or \<^verbatim>\<open>reduce\<close>: they are the
  environment the task runs in, passed explicitly here.
\<close>

type_synonym time = int

record task_clock =
  at_builder :: time
  at_build :: time

text \<open>
  Modelled from the spec: \<^verbatim>\<open>BlockExecStats\<close>, which is not in this file; the
  specification says that the metadata captures the execution timing of the whole task.
\<close>

record block_exec_stats =
  start_time_s :: time
  end_time_s :: time
  wall_time_s :: time

text \<open>
  Modelled from the spec: \<^verbatim>\<open>BlockExecStats.builder()\<close>, which keeps the time at which the
  task started.
\<close>

definition builder :: "task_clock \<Rightarrow> time" where
  "builder clk = at_builder clk"

text \<open>
  Modelled from the spec: \<^verbatim>\<open>build()\<close> on that builder, the statistics from the start of
  the task to the present reading of the clock.
\<close>

definition build :: "time \<Rightarrow> task_clock \<Rightarrow> block_exec_stats" where
  "build started clk =
     \<lparr>start_time_s = started, end_time_s = at_build clk,
      wall_time_s = at_build clk - started\<rparr>"

text \<open>
  Modelled from the spec: \<^verbatim>\<open>BlockMetadata\<close>, the statistics envelope of a block (row
  count, byte size, execution timing).
\<close>

record block_metadata =
  meta_num_rows :: nat
  meta_size_bytes :: nat
  meta_exec_stats :: block_exec_stats

text \<open>
  The capabilities of a block that this code consumes, reached in the source through
  \<^verbatim>\<open>BlockAccessor.for_block(block)\<close>: one record stands for that dispatch. \<open>'b\<close> is the
  block, \<open>'k\<close> a boundary value (\<^verbatim>\<open>KeyType\<close>). \<^verbatim>\<open>select\<close> receives \<^verbatim>\<open>list(columns)\<close>,
  the elements of a Python set in an order the language leaves open, so the capability
  takes the set. \<open>to_batch_format\<close> is the conversion that \<^verbatim>\<open>normalize_block_types\<close>
  applies to each block, \<open>merge_combined\<close> the merge inside
  \<^verbatim>\<open>aggregate_combined_blocks\<close>.
\<close>

record ('b, 'k, 'f, 'a) block_accessor =
  is_TableBlockAccessor :: "'b \<Rightarrow> bool"
  num_rows :: "'b \<Rightarrow> nat"
  size_bytes :: "'b \<Rightarrow> nat"
  select :: "'b \<Rightarrow> string set \<Rightarrow> error + 'b"
  sort_and_partition :: "'b \<Rightarrow> 'k list \<Rightarrow> 'f group_key \<Rightarrow> error + 'b list"
  combine :: "'b \<Rightarrow> 'f group_key \<Rightarrow> 'a aggregate_fn list \<Rightarrow> error + 'b"
  to_batch_format :: "'b \<Rightarrow> string \<Rightarrow> error + 'b"
  merge_combined :: "'b list \<Rightarrow> 'f group_key \<Rightarrow> 'a aggregate_fn list \<Rightarrow> bool \<Rightarrow> error + 'b"

text \<open>
  Modelled from the spec: \<^verbatim>\<open>BlockAccessor.get_metadata(exec_stats)\<close>, the metadata of a
  block with the given execution statistics.
\<close>

definition get_metadata ::
  "('b, 'k, 'f, 'a) block_accessor \<Rightarrow> 'b \<Rightarrow> block_exec_stats \<Rightarrow> block_metadata" where
  "get_metadata A block stats =
     \<lparr>meta_num_rows = num_rows A block, meta_size_bytes = size_bytes A block,
      meta_exec_stats = stats\<rparr>"

text \<open>A list comprehension over a call that may raise stops at the first exception.\<close>

fun map_result :: "('x \<Rightarrow> error + 'y) \<Rightarrow> 'x list \<Rightarrow> error + 'y list" where
  "map_result f [] = Inr []"
| "map_result f (x # xs) =
     (case f x of
        Inl e \<Rightarrow> Inl e
      | Inr y \<Rightarrow> (case map_result f xs of Inl e \<Rightarrow> Inl e | Inr ys \<Rightarrow> Inr (y # ys)))"

section \<open>\<^verbatim>\<open>_prune_unused_columns\<close>\<close>

text \<open>
  The state of the function is the pair of its two locals, \<^verbatim>\<open>prune_columns\<close> and
  \<^verbatim>\<open>columns\<close>. \<open>key_step\<close> is the \<^verbatim>\<open>if/elif/elif\<close> on the key (a key that is neither a
  string, a list nor a callable, that is \<^verbatim>\<open>None\<close>, changes nothing).
\<close>

definition key_step :: "'f group_key \<Rightarrow> bool \<times> string set \<Rightarrow> bool \<times> string set" where
  "key_step key st =
     (case st of (prune_columns, columns) \<Rightarrow>
        (case key of
           KeyStr k \<Rightarrow> (prune_columns, insert k columns)
         | KeyList ks \<Rightarrow> (prune_columns, columns \<union> set ks)
         | KeyCallable f \<Rightarrow> (False, columns)
         | KeyNone \<Rightarrow> (prune_columns, columns)))"

text \<open>The body of the loop \<^verbatim>\<open>for agg in aggs\<close>.\<close>

definition agg_step :: "'a aggregate_fn \<Rightarrow> bool \<times> string set \<Rightarrow> bool \<times> string set" where
  "agg_step agg st =
     (case st of (prune_columns, columns) \<Rightarrow>
        (case (is_AggregateOnKeyBase agg, key_fn agg) of
           (True, KeyFnStr c) \<Rightarrow> (prune_columns, insert c columns)
         | _ \<Rightarrow> if \<not> is_Count agg then (False, columns) else (prune_columns, columns)))"

definition prune_state :: "'f group_key \<Rightarrow> 'a aggregate_fn list \<Rightarrow> bool \<times> string set" where
  "prune_state key aggs = fold agg_step aggs (key_step key (True, {}))"

definition prune_unused_columns ::
  "('b, 'k, 'f, 'a) block_accessor \<Rightarrow> 'b \<Rightarrow> 'f group_key \<Rightarrow> 'a aggregate_fn list \<Rightarrow> error + 'b" where
  "prune_unused_columns A block key aggs =
     (case prune_state key aggs of (prune_columns, columns) \<Rightarrow>
        if prune_columns \<and> is_TableBlockAccessor A block \<and> num_rows A block > 0
        then select A block columns
        else Inr block)"

section \<open>\<^verbatim>\<open>map\<close>\<close>

text \<open>An element of the list \<^verbatim>\<open>map\<close> returns, \<^verbatim>\<open>Union[BlockMetadata, Block]\<close>.\<close>

datatype 'b map_output = Blk 'b | Meta block_metadata

text \<open>
  \<^verbatim>\<open>idx\<close> and \<^verbatim>\<open>output_num_blocks\<close> are parameters the body never reads. The local
  \<^verbatim>\<open>block\<close> is reassigned to the result of \<^verbatim>\<open>_prune_unused_columns\<close> before anything
  else uses it; below it is \<open>pruned\<close>.
\<close>

definition map_task ::
  "('b, 'k, 'f, 'a) block_accessor \<Rightarrow> task_clock \<Rightarrow> nat \<Rightarrow> 'b \<Rightarrow> nat \<Rightarrow> 'k list \<Rightarrow>
   'f group_key \<Rightarrow> 'a aggregate_fn list \<Rightarrow> error + 'b map_output list" where
  "map_task A clk idx block output_num_blocks boundaries key aggs =
     (let stats = builder clk in
      case prune_unused_columns A block key aggs of
        Inl e \<Rightarrow> Inl e
      | Inr pruned \<Rightarrow>
          (case (case key of KeyNone \<Rightarrow> Inr [pruned]
                 | _ \<Rightarrow> sort_and_partition A pruned boundaries key) of
             Inl e \<Rightarrow> Inl e
           | Inr partitions \<Rightarrow>
               (case map_result (\<lambda>p. combine A p key aggs) partitions of
                  Inl e \<Rightarrow> Inl e
                | Inr parts \<Rightarrow>
                    Inr (map Blk parts @ [Meta (get_metadata A pruned (build stats clk))]))))"

section \<open>\<^verbatim>\<open>reduce\<close>\<close>

text \<open>
  Modelled from the spec: \<^verbatim>\<open>TableBlockAccessor.normalize_block_types\<close> brings every
  input block to the representation of the target batch format.
\<close>

definition normalize_block_types ::
  "('b, 'k, 'f, 'a) block_accessor \<Rightarrow> 'b list \<Rightarrow> string \<Rightarrow> error + 'b list" where
  "normalize_block_types A blocks normalize_type =
     map_result (\<lambda>b. to_batch_format A b normalize_type) blocks"

text \<open>
  Modelled from the spec: \<^verbatim>\<open>aggregate_combined_blocks\<close> merges the blocks by key,
  finalizes on request, and returns the output block with one metadata for it.
\<close>

definition aggregate_combined_blocks ::
  "('b, 'k, 'f, 'a) block_accessor \<Rightarrow> task_clock \<Rightarrow> 'b list \<Rightarrow> 'f group_key \<Rightarrow>
   'a aggregate_fn list \<Rightarrow> bool \<Rightarrow> error + ('b \<times> block_metadata)" where
  "aggregate_combined_blocks A clk blocks key aggs finalize =
     (let stats = builder clk in
      case merge_combined A blocks key aggs finalize of
        Inl e \<Rightarrow> Inl e
      | Inr ret \<Rightarrow> Inr (ret, get_metadata A ret (build stats clk)))"

text \<open>
  \<^verbatim>\<open>normalized_blocks[0]\<close> raises \<^verbatim>\<open>IndexError\<close> on an empty sequence; the block it
  yields only selects the accessor.
\<close>

definition reduce ::
  "('b, 'k, 'f, 'a) block_accessor \<Rightarrow> task_clock \<Rightarrow> 'f group_key \<Rightarrow> 'a aggregate_fn list \<Rightarrow>
   string \<Rightarrow> 'b list \<Rightarrow> bool \<Rightarrow> error + ('b \<times> block_metadata)" where
  "reduce A clk key aggs batch_format mapper_outputs partial_reduce =
     (case normalize_block_types A mapper_outputs batch_format of
        Inl e \<Rightarrow> Inl e
      | Inr normalized_blocks \<Rightarrow>
          (case normalized_blocks of
             [] \<Rightarrow> Inl IndexError
           | first # rest \<Rightarrow>
               aggregate_combined_blocks A clk normalized_blocks key aggs (\<not> partial_reduce)))"

section \<open>A model of the collaborators\<close>

text \<open>
  The block accessors and the aggregate functions are outside this file. The model
  below follows the specification: a block is an ordered chunk of rows in one of the
  representations, a row gives a cell to each of its columns, and a key value is the
  list of the cells of the key columns, compared as Python compares tuples.
\<close>

text \<open>Modelled from the spec: a row of a block, one cell for each of its columns.\<close>

type_synonym 'v row = "(string \<times> 'v) list"

text \<open>
  Modelled from the spec: the storage representation of a block. The two columnar ones
  have a \<^verbatim>\<open>TableBlockAccessor\<close>; the third stands for a block that is not columnar.
\<close>

datatype block_type = ArrowBlock | PandasBlock | SimpleBlock

text \<open>Modelled from the spec: \<^verbatim>\<open>Block\<close>, an ordered chunk of rows in one representation.\<close>

record 'v block =
  block_type :: block_type
  rows :: "'v row list"

text \<open>
  Modelled from the spec: the implementation of an \<^verbatim>\<open>AggregateFn\<close> (accumulate, merge
  and finalize are opaque operations on the partial state, which is stored in a cell).
\<close>

record 'v agg_impl =
  agg_name :: string
  agg_init :: "'v list \<Rightarrow> 'v"
  agg_accumulate :: "'v \<Rightarrow> 'v row \<Rightarrow> 'v"
  agg_merge :: "'v \<Rightarrow> 'v \<Rightarrow> 'v"
  agg_finalize :: "'v \<Rightarrow> 'v"

text \<open>
  Modelled from the spec: the columns a key is read from. The sort capability signals an
  invalid key type for a key that names no columns.
\<close>

definition sort_key_columns :: "'f group_key \<Rightarrow> error + string list" where
  "sort_key_columns key =
     (case key of
        KeyNone \<Rightarrow> Inr []
      | KeyStr k \<Rightarrow> Inr [k]
      | KeyList ks \<Rightarrow> Inr ks
      | KeyCallable f \<Rightarrow> Inl ValueError)"

text \<open>
  Modelled from the spec: reading a column of a row; a column the row lacks is a schema
  mismatch, which the capabilities signal as a failure.
\<close>

definition cell :: "'v row \<Rightarrow> string \<Rightarrow> error + 'v" where
  "cell r c = (case map_of r c of None \<Rightarrow> Inl KeyError | Some v \<Rightarrow> Inr v)"

text \<open>Modelled from the spec: the key of a row, the cells of the key columns in order.\<close>

definition row_key :: "string list \<Rightarrow> 'v row \<Rightarrow> error + 'v list" where
  "row_key cols r = map_result (cell r) cols"

text \<open>Modelled from the spec: the rows of a block, each with its key.\<close>

definition keyed_rows :: "string list \<Rightarrow> 'v row list \<Rightarrow> error + ('v list \<times> 'v row) list" where
  "keyed_rows cols rs =
     map_result (\<lambda>r. case row_key cols r of Inl e \<Rightarrow> Inl e | Inr k \<Rightarrow> Inr (k, r)) rs"

text \<open>
  Modelled from the spec: whether the block representation supports column selection
  (the accessor is a \<^verbatim>\<open>TableBlockAccessor\<close>).
\<close>

definition table_is_table :: "'v block \<Rightarrow> bool" where
  "table_is_table b = (block_type b \<noteq> SimpleBlock)"

text \<open>Modelled from the spec: \<^verbatim>\<open>numRows\<close>.\<close>

definition table_num_rows :: "'v block \<Rightarrow> nat" where
  "table_num_rows b = length (rows b)"

text \<open>
  Modelled from the spec: the byte size the metadata reports, the sum of the sizes of the
  cells.
\<close>

definition table_size_bytes :: "('v \<Rightarrow> nat) \<Rightarrow> 'v block \<Rightarrow> nat" where
  "table_size_bytes nbytes b = sum_list (map (\<lambda>r. sum_list (map (\<lambda>(c, v). nbytes v) r)) (rows b))"

text \<open>
  Modelled from the spec: \<^verbatim>\<open>select(columns)\<close>, the projection of the block onto exactly
  the given columns; a column that a row lacks is a schema mismatch.
\<close>

definition table_select :: "'v block \<Rightarrow> string set \<Rightarrow> error + 'v block" where
  "table_select b cols =
     (if list_all (\<lambda>r. cols \<subseteq> fst ` set r) (rows b)
      then Inr (b\<lparr>rows := map (filter (\<lambda>(c, v). c \<in> cols)) (rows b)\<rparr>)
      else Inl KeyError)"

text \<open>
  Modelled from the spec: the Partition Planner. The rows are sorted by key; partition
  \<open>i\<close> takes the rows whose key is at most \<open>boundary[i]\<close> from what the partitions before
  it have left, and the last partition takes the rest. Every partition is emitted, empty
  or not.
\<close>

fun partition_sorted :: "('k::linorder) list \<Rightarrow> ('k \<times> 'r) list \<Rightarrow> ('k \<times> 'r) list list" where
  "partition_sorted [] krs = [krs]"
| "partition_sorted (b # bs) krs =
     takeWhile (\<lambda>kr. fst kr \<le> b) krs # partition_sorted bs (dropWhile (\<lambda>kr. fst kr \<le> b) krs)"

text \<open>
  Modelled from the spec: \<^verbatim>\<open>sortAndPartition(boundaries, key)\<close>, a stable sort of the
  rows by key followed by the Partition Planner; each partition is a block of the same
  representation.
\<close>

definition table_sort_and_partition ::
  "('v::linorder) block \<Rightarrow> 'v list list \<Rightarrow> 'f group_key \<Rightarrow> error + 'v block list" where
  "table_sort_and_partition b boundaries key =
     (case sort_key_columns key of
        Inl e \<Rightarrow> Inl e
      | Inr cols \<Rightarrow>
          (case keyed_rows cols (rows b) of
             Inl e \<Rightarrow> Inl e
           | Inr krs \<Rightarrow>
               Inr (map (\<lambda>p. b\<lparr>rows := map snd p\<rparr>)
                      (partition_sorted boundaries (sort_key fst krs)))))"

text \<open>
  Modelled from the spec: grouping for local combine and for the merge. Adjacent rows
  with an equal key form a group, given as its key, its first row and its other rows.
\<close>

fun group_adjacent :: "('k \<times> 'r) list \<Rightarrow> ('k \<times> 'r \<times> 'r list) list" where
  "group_adjacent [] = []"
| "group_adjacent ((k, r) # krs) =
     (case group_adjacent krs of
        [] \<Rightarrow> [(k, r, [])]
      | (k', r', rs) # gs \<Rightarrow>
          if k' = k then (k, r, r' # rs) # gs else (k, r, []) # (k', r', rs) # gs)"

text \<open>
  Modelled from the spec: the states of all aggregates accumulated over the rows of one
  group, each from the initial state of its aggregate.
\<close>

definition accumulate_all :: "'v agg_impl aggregate_fn list \<Rightarrow> 'v list \<Rightarrow> 'v row list \<Rightarrow> 'v list" where
  "accumulate_all aggs k rs =
     map (\<lambda>agg. foldl (agg_accumulate (impl agg)) (agg_init (impl agg) k) rs) aggs"

text \<open>
  Modelled from the spec: a partial-aggregate row, the key columns followed by one
  column for each aggregate, named after it.
\<close>

definition state_row :: "string list \<Rightarrow> 'v agg_impl aggregate_fn list \<Rightarrow> 'v list \<Rightarrow> 'v list \<Rightarrow> 'v row" where
  "state_row cols aggs k states = zip cols k @ zip (map (\<lambda>agg. agg_name (impl agg)) aggs) states"

text \<open>
  Modelled from the spec: \<^verbatim>\<open>combine(key, aggs)\<close>, local combine. Each group becomes one
  partial-aggregate row; an absent key makes the whole block one group.
\<close>

definition table_combine ::
  "'v block \<Rightarrow> 'f group_key \<Rightarrow> 'v agg_impl aggregate_fn list \<Rightarrow> error + 'v block" where
  "table_combine b key aggs =
     (case key of
        KeyNone \<Rightarrow> Inr (b\<lparr>rows := [state_row [] aggs [] (accumulate_all aggs [] (rows b))]\<rparr>)
      | _ \<Rightarrow>
          (case sort_key_columns key of
             Inl e \<Rightarrow> Inl e
           | Inr cols \<Rightarrow>
               (case keyed_rows cols (rows b) of
                  Inl e \<Rightarrow> Inl e
                | Inr krs \<Rightarrow>
                    Inr (b\<lparr>rows := map (\<lambda>(k, r, rs). state_row cols aggs k (accumulate_all aggs k (r # rs)))
                                     (group_adjacent krs)\<rparr>))))"

text \<open>
  Modelled from the spec: the target batch representation of \<^verbatim>\<open>normalize_block_types\<close>.
\<close>

definition table_to_batch_format :: "'v block \<Rightarrow> string \<Rightarrow> error + 'v block" where
  "table_to_batch_format b batch_format =
     (if batch_format = ''pandas'' then Inr (b\<lparr>block_type := PandasBlock\<rparr>)
      else if batch_format = ''pyarrow'' then Inr (b\<lparr>block_type := ArrowBlock\<rparr>)
      else Inl ValueError)"

text \<open>
  Modelled from the spec: the merge of two sequences of rows, each sorted by key, in key
  order.
\<close>

fun merge_by_key :: "(('k::linorder) \<times> 'r) list \<Rightarrow> ('k \<times> 'r) list \<Rightarrow> ('k \<times> 'r) list" where
  "merge_by_key [] ys = ys"
| "merge_by_key (x # xs) [] = x # xs"
| "merge_by_key (x # xs) (y # ys) =
     (if fst x \<le> fst y then x # merge_by_key xs (y # ys) else y # merge_by_key (x # xs) ys)"

text \<open>Modelled from the spec: the k-way merge of the input blocks of the Merge-Reduce Task.\<close>

definition kway_merge :: "(('k::linorder) \<times> 'r) list list \<Rightarrow> ('k \<times> 'r) list" where
  "kway_merge ls = foldr merge_by_key ls []"

text \<open>
  Modelled from the spec: the states one aggregate has in the rows of a group, merged
  with its merge operation, starting from the state of the first row.
\<close>

definition merge_states :: "'v agg_impl aggregate_fn \<Rightarrow> 'v row \<Rightarrow> 'v row list \<Rightarrow> error + 'v" where
  "merge_states agg r rs =
     (case cell r (agg_name (impl agg)) of
        Inl e \<Rightarrow> Inl e
      | Inr s \<Rightarrow>
          (case map_result (\<lambda>r'. cell r' (agg_name (impl agg))) rs of
             Inl e \<Rightarrow> Inl e
           | Inr ss \<Rightarrow> Inr (foldl (agg_merge (impl agg)) s ss)))"

text \<open>
  Modelled from the spec: the merged state of every key, in key order: the input blocks
  are merged, the rows of one key form a group, and the states of a group are merged
  aggregate by aggregate.
\<close>

definition merged_groups ::
  "string list \<Rightarrow> 'v agg_impl aggregate_fn list \<Rightarrow> ('v::linorder) block list \<Rightarrow>
   error + ('v list \<times> 'v list) list" where
  "merged_groups cols aggs blocks =
     (case map_result (\<lambda>b. keyed_rows cols (rows b)) blocks of
        Inl e \<Rightarrow> Inl e
      | Inr ls \<Rightarrow>
          map_result
            (\<lambda>(k, r, rs). case map_result (\<lambda>agg. merge_states agg r rs) aggs of
                             Inl e \<Rightarrow> Inl e
                           | Inr states \<Rightarrow> Inr (k, states))
            (group_adjacent (kway_merge ls)))"

text \<open>
  Modelled from the spec: finalization turns the merged state of each aggregate into its
  output value; without it the row keeps the merged state.
\<close>

definition output_states :: "'v agg_impl aggregate_fn list \<Rightarrow> bool \<Rightarrow> 'v list \<Rightarrow> 'v list" where
  "output_states aggs fin states =
     (if fin then map (\<lambda>(agg, s). agg_finalize (impl agg) s) (zip aggs states) else states)"

text \<open>
  Modelled from the spec: the output block of the Merge-Reduce Task, one row for each
  distinct key, in the representation of the first input block.
\<close>

definition table_merge_combined ::
  "('v::linorder) block list \<Rightarrow> 'f group_key \<Rightarrow> 'v agg_impl aggregate_fn list \<Rightarrow> bool \<Rightarrow>
   error + 'v block" where
  "table_merge_combined blocks key aggs fin =
     (case blocks of
        [] \<Rightarrow> Inl IndexError
      | first # rest \<Rightarrow>
          (case sort_key_columns key of
             Inl e \<Rightarrow> Inl e
           | Inr cols \<Rightarrow>
               (case merged_groups cols aggs blocks of
                  Inl e \<Rightarrow> Inl e
                | Inr groups \<Rightarrow>
                    Inr (first\<lparr>rows := map (\<lambda>(k, states). state_row cols aggs k (output_states aggs fin states))
                                         groups\<rparr>))))"

text \<open>
  Modelled from the spec: the block capabilities of the model, gathered in one accessor;
  \<open>nbytes\<close> is the size of a cell.
\<close>

definition table_accessor ::
  "('v \<Rightarrow> nat) \<Rightarrow> (('v::linorder) block, 'v list, 'f, 'v agg_impl) block_accessor" where
  "table_accessor nbytes =
     \<lparr>is_TableBlockAccessor = table_is_table,
      num_rows = table_num_rows,
      size_bytes = table_size_bytes nbytes,
      select = table_select,
      sort_and_partition = table_sort_and_partition,
      combine = table_combine,
      to_batch_format = table_to_batch_format,
      merge_combined = table_merge_combined\<rparr>"

section \<open>The specification's reading of the Column Pruner\<close>

text \<open>
  These definitions follow the words of the specification (its Column Pruner, steps 1 to
  3), not the loop of the source: which columns are needed, and when pruning is eligible.
  The theorems below compare them with \<open>prune_state\<close>, which follows the source.
\<close>

definition key_is_callable :: "'f group_key \<Rightarrow> bool" where
  "key_is_callable key = (case key of KeyCallable f \<Rightarrow> True | _ \<Rightarrow> False)"

definition key_columns :: "'f group_key \<Rightarrow> string set" where
  "key_columns key = (case key of KeyStr k \<Rightarrow> {k} | KeyList ks \<Rightarrow> set ks | _ \<Rightarrow> {})"

definition reads_plain_column :: "'a aggregate_fn \<Rightarrow> bool" where
  "reads_plain_column agg =
     (is_AggregateOnKeyBase agg \<and> (case key_fn agg of KeyFnStr c \<Rightarrow> True | KeyFnOther \<Rightarrow> False))"

definition agg_columns :: "'a aggregate_fn \<Rightarrow> string set" where
  "agg_columns agg =
     (if is_AggregateOnKeyBase agg then (case key_fn agg of KeyFnStr c \<Rightarrow> {c} | KeyFnOther \<Rightarrow> {})
      else {})"

definition pure_row_count :: "'a aggregate_fn \<Rightarrow> bool" where
  "pure_row_count agg = (is_Count agg \<and> \<not> reads_plain_column agg)"

definition spec_prune_eligible :: "'f group_key \<Rightarrow> 'a aggregate_fn list \<Rightarrow> bool" where
  "spec_prune_eligible key aggs =
     (\<not> key_is_callable key \<and> list_all (\<lambda>agg. reads_plain_column agg \<or> is_Count agg) aggs)"

definition spec_needed_columns :: "'f group_key \<Rightarrow> 'a aggregate_fn list \<Rightarrow> string set" where
  "spec_needed_columns key aggs = key_columns key \<union> \<Union> (set (map agg_columns aggs))"

section \<open>Outputs without their execution statistics\<close>



section \<open>Concrete inputs\<close>

text \<open>
  The scenario of the specification: the key is column \<open>a\<close>, the aggregate sums column
  \<open>b\<close>, the boundary list is \<open>[5]\<close>, and the rows are \<open>(a=1, b=10)\<close>, \<open>(a=6, b=20)\<close>,
  \<open>(a=1, b=5)\<close>; here the block has a third column \<open>c\<close> that nothing reads. Cells are
  integers of eight bytes.
\<close>

definition int64_accessor :: "(int block, int list, unit, int agg_impl) block_accessor" where
  "int64_accessor = table_accessor (\<lambda>v. 8)"

definition sum_on :: "string \<Rightarrow> int agg_impl aggregate_fn" where
  "sum_on c =
     \<lparr>is_AggregateOnKeyBase = True, key_fn = KeyFnStr c, is_Count = False,
      impl = \<lparr>agg_name = ''sum('' @ c @ '')'', agg_init = (\<lambda>k. 0),
              agg_accumulate = (\<lambda>a r. a + (case map_of r c of None \<Rightarrow> 0 | Some v \<Rightarrow> v)),
              agg_merge = (\<lambda>a1 a2. a1 + a2), agg_finalize = (\<lambda>a. a)\<rparr>\<rparr>"

definition count_rows :: "int agg_impl aggregate_fn" where
  "count_rows =
     \<lparr>is_AggregateOnKeyBase = False, key_fn = KeyFnOther, is_Count = True,
      impl = \<lparr>agg_name = ''count()'', agg_init = (\<lambda>k. 0),
              agg_accumulate = (\<lambda>a r. a + 1),
              agg_merge = (\<lambda>a1 a2. a1 + a2), agg_finalize = (\<lambda>a. a)\<rparr>\<rparr>"

text \<open>A user-defined \<^verbatim>\<open>AggregateFn\<close>: no key accessor, and a finalize that changes the state.\<close>

definition twice_sum_on :: "string \<Rightarrow> int agg_impl aggregate_fn" where
  "twice_sum_on c =
     \<lparr>is_AggregateOnKeyBase = False, key_fn = KeyFnOther, is_Count = False,
      impl = \<lparr>agg_name = ''twice_sum('' @ c @ '')'', agg_init = (\<lambda>k. 0),
              agg_accumulate = (\<lambda>a r. a + (case map_of r c of None \<Rightarrow> 0 | Some v \<Rightarrow> v)),
              agg_merge = (\<lambda>a1 a2. a1 + a2), agg_finalize = (\<lambda>a. 2 * a)\<rparr>\<rparr>"

definition example_block :: "int block" where
  "example_block =
     \<lparr>block_type = ArrowBlock,
      rows = [[(''a'', 1), (''b'', 10), (''c'', 7)],
              [(''a'', 6), (''b'', 20), (''c'', 8)],
              [(''a'', 1), (''b'', 5), (''c'', 9)]]\<rparr>"

definition example_partials :: "int block list" where
  "example_partials =
     [\<lparr>block_type = ArrowBlock, rows = [[(''a'', 1), (''twice_sum(b)'', 15)]]\<rparr>,
      \<lparr>block_type = PandasBlock,
       rows = [[(''a'', 1), (''twice_sum(b)'', 7)], [(''a'', 3), (''twice_sum(b)'', 4)]]\<rparr>]"

definition example_clock :: task_clock where
  "example_clock = \<lparr>at_builder = 100, at_build = 103\<rparr>"

section \<open>Helper lemmas\<close>




lemma table_accessor_simps:
  "is_TableBlockAccessor (table_accessor nbytes) = table_is_table"
  "num_rows (table_accessor nbytes) = table_num_rows"
  "size_bytes (table_accessor nbytes) = table_size_bytes nbytes"
  "select (table_accessor nbytes) = table_select"
  "sort_and_partition (table_accessor nbytes) = table_sort_and_partition"
  "combine (table_accessor nbytes) = table_combine"
  "to_batch_format (table_accessor nbytes) = table_to_batch_format"
  "merge_combined (table_accessor nbytes) = table_merge_combined"
  by (simp_all add: table_accessor_def)

subsection \<open>The loop of \<^verbatim>\<open>_prune_unused_columns\<close> computes the specification's sets\<close>

lemma agg_step_eq:
  "agg_step agg (p, cs) = (p \<and> (reads_plain_column agg \<or> is_Count agg), cs \<union> agg_columns agg)"
  by (auto simp: agg_step_def reads_plain_column_def agg_columns_def split: key_fn.splits bool.splits)

lemma fold_agg_step:
  "fold agg_step aggs (p, cs) =
     (p \<and> list_all (\<lambda>agg. reads_plain_column agg \<or> is_Count agg) aggs,
      cs \<union> \<Union> (set (map agg_columns aggs)))"
  by (induction aggs arbitrary: p cs) (auto simp: agg_step_eq)

lemma key_step_eq: "key_step key (True, {}) = (\<not> key_is_callable key, key_columns key)"
  by (cases key) (simp_all add: key_step_def key_is_callable_def key_columns_def)

lemma prune_state_eq:
  "prune_state key aggs = (spec_prune_eligible key aggs, spec_needed_columns key aggs)"
  by (simp add: prune_state_def key_step_eq fold_agg_step spec_prune_eligible_def
      spec_needed_columns_def)

lemma prune_unused_columns_eq:
  "prune_unused_columns A block key aggs =
     (if spec_prune_eligible key aggs \<and> is_TableBlockAccessor A block \<and> 0 < num_rows A block
      then select A block (spec_needed_columns key aggs) else Inr block)"
  by (simp add: prune_unused_columns_def prune_state_eq)

lemma pure_row_counts_eligible:
  "list_all pure_row_count aggs \<Longrightarrow> spec_prune_eligible KeyNone aggs"
  by (simp add: spec_prune_eligible_def key_is_callable_def pure_row_count_def list_all_iff)

lemma pure_row_counts_need_nothing:
  "list_all pure_row_count aggs \<Longrightarrow> spec_needed_columns KeyNone aggs = {}"
  by (auto simp: spec_needed_columns_def key_columns_def pure_row_count_def list_all_iff
      agg_columns_def reads_plain_column_def split: key_fn.splits)

text \<open>What the modelled \<^verbatim>\<open>select\<close> returns: every row keeps exactly the requested columns.\<close>

lemma table_select_columns:
  assumes "table_select b cols = Inr b'"
  shows "length (rows b') = length (rows b) \<and> (\<forall>r \<in> set (rows b'). fst ` set r = cols)"
proof -
  from assms have ok: "list_all (\<lambda>r. cols \<subseteq> fst ` set r) (rows b)"
    and b': "rows b' = map (filter (\<lambda>(c, v). c \<in> cols)) (rows b)"
    by (auto simp: table_select_def split: if_splits)
  have "fst ` set (filter (\<lambda>(c, v). c \<in> cols) r) = cols" if "cols \<subseteq> fst ` set r" for r :: "'a row"
    using that by force
  with ok b' show ?thesis by (auto simp: list_all_iff)
qed

subsection \<open>Concrete runs\<close>

lemma example_map_run:
  "map_task int64_accessor example_clock 0 example_block 2 [[5]] (KeyStr ''a'') [sum_on ''b''] =
   Inr [Blk \<lparr>block_type = ArrowBlock, rows = [[(''a'', 1), (''sum(b)'', 15)]]\<rparr>,
        Blk \<lparr>block_type = ArrowBlock, rows = [[(''a'', 6), (''sum(b)'', 20)]]\<rparr>,
        Meta \<lparr>meta_num_rows = 3, meta_size_bytes = 48,
              meta_exec_stats = \<lparr>start_time_s = 100, end_time_s = 103, wall_time_s = 3\<rparr>\<rparr>]"
  by code_simp


lemma example_reduce_run:
  "reduce int64_accessor example_clock (KeyStr ''a'') [twice_sum_on ''b''] ''pyarrow''
     example_partials False =
   Inr (\<lparr>block_type = ArrowBlock,
         rows = [[(''a'', 1), (''twice_sum(b)'', 44)], [(''a'', 3), (''twice_sum(b)'', 8)]]\<rparr>,
        \<lparr>meta_num_rows = 2, meta_size_bytes = 32,
         meta_exec_stats = \<lparr>start_time_s = 100, end_time_s = 103, wall_time_s = 3\<rparr>\<rparr>)"
  by code_simp


lemma example_block_is_table:
  "is_TableBlockAccessor int64_accessor example_block \<and> 0 < num_rows int64_accessor example_block"
  by code_simp

section \<open>Column pruning\<close>

text \<open>
  Claim C5. Column pruning degrades to the identity: for every block, key and aggregate
  list, if the key is an opaque (callable) function, or some aggregate neither reads a
  plain column nor is a row count, or the block is not a columnar table block, or the
  block has no rows, then \<^verbatim>\<open>_prune_unused_columns\<close> returns the input block unchanged,
  without calling any capability that could fail.
\<close>

theorem prune_degrades_to_identity:
  assumes "key_is_callable key
           \<or> (\<exists>agg \<in> set aggs. \<not> reads_plain_column agg \<and> \<not> is_Count agg)
           \<or> \<not> is_TableBlockAccessor A block
           \<or> num_rows A block = 0"
  shows "prune_unused_columns A block key aggs = Inr block"
  using assms by (auto simp: prune_unused_columns_eq spec_prune_eligible_def list_all_iff)

text \<open>
  One input for each of the four reasons: a callable key, a user-defined aggregate, a
  block that is not a table, an empty table.
\<close>

theorem prune_degrades_to_identity_witness:
  "prune_unused_columns int64_accessor example_block (KeyCallable ()) [sum_on ''b''] = Inr example_block \<and>
   prune_unused_columns int64_accessor example_block (KeyStr ''a'') [sum_on ''b'', twice_sum_on ''b'']
     = Inr example_block \<and>
   prune_unused_columns int64_accessor (example_block\<lparr>block_type := SimpleBlock\<rparr>) (KeyStr ''a'') [sum_on ''b'']
     = Inr (example_block\<lparr>block_type := SimpleBlock\<rparr>) \<and>
   prune_unused_columns int64_accessor (example_block\<lparr>rows := []\<rparr>) (KeyStr ''a'') [sum_on ''b'']
     = Inr (example_block\<lparr>rows := []\<rparr>)"
proof (intro conjI)
  show "prune_unused_columns int64_accessor example_block (KeyCallable ()) [sum_on ''b''] = Inr example_block"
    using prune_degrades_to_identity [of "KeyCallable ()" "[sum_on ''b'']" int64_accessor example_block]
    by (simp add: key_is_callable_def)
  show "prune_unused_columns int64_accessor example_block (KeyStr ''a'') [sum_on ''b'', twice_sum_on ''b'']
     = Inr example_block"
    using prune_degrades_to_identity [of "KeyStr ''a''" "[sum_on ''b'', twice_sum_on ''b'']"
        int64_accessor example_block]
    by (simp add: reads_plain_column_def twice_sum_on_def)
  show "prune_unused_columns int64_accessor (example_block\<lparr>block_type := SimpleBlock\<rparr>) (KeyStr ''a'') [sum_on ''b'']
     = Inr (example_block\<lparr>block_type := SimpleBlock\<rparr>)"
    using prune_degrades_to_identity [of "KeyStr ''a''" "[sum_on ''b'']" int64_accessor
        "example_block\<lparr>block_type := SimpleBlock\<rparr>"]
    by (simp add: int64_accessor_def table_accessor_simps table_is_table_def)
  show "prune_unused_columns int64_accessor (example_block\<lparr>rows := []\<rparr>) (KeyStr ''a'') [sum_on ''b'']
     = Inr (example_block\<lparr>rows := []\<rparr>)"
    using prune_degrades_to_identity [of "KeyStr ''a''" "[sum_on ''b'']" int64_accessor
        "example_block\<lparr>rows := []\<rparr>"]
    by (simp add: int64_accessor_def table_accessor_simps table_num_rows_def)
qed

text \<open>
  Claim C6. When pruning is eligible (the key is absent, a column name or a list of
  column names, and every aggregate is a row count or reads a plain column) and the
  block is a non-empty columnar block, \<^verbatim>\<open>_prune_unused_columns\<close> projects the block
  onto exactly the needed columns: the key columns plus the column of each aggregate
  that reads one; a row count contributes no column and leaves pruning eligible.
\<close>

theorem prune_projects_onto_needed:
  assumes "spec_prune_eligible key aggs"
    and "is_TableBlockAccessor A block" and "0 < num_rows A block"
  shows "prune_unused_columns A block key aggs = select A block (spec_needed_columns key aggs)"
  using assms by (simp add: prune_unused_columns_eq)

theorem prune_projects_onto_needed_witness:
  "spec_prune_eligible (KeyStr ''a'' :: unit group_key) [count_rows, sum_on ''b''] \<and>
   spec_needed_columns (KeyStr ''a'' :: unit group_key) [count_rows, sum_on ''b''] = {''a'', ''b''} \<and>
   prune_unused_columns int64_accessor example_block (KeyStr ''a'') [count_rows, sum_on ''b''] =
     Inr \<lparr>block_type = ArrowBlock,
          rows = [[(''a'', 1), (''b'', 10)], [(''a'', 6), (''b'', 20)], [(''a'', 1), (''b'', 5)]]\<rparr>"
proof -
  have eligible: "spec_prune_eligible (KeyStr ''a'' :: unit group_key) [count_rows, sum_on ''b'']"
    by (simp add: spec_prune_eligible_def key_is_callable_def count_rows_def sum_on_def
        reads_plain_column_def)
  have needed: "spec_needed_columns (KeyStr ''a'' :: unit group_key) [count_rows, sum_on ''b'']
                  = {''a'', ''b''}"
    by (auto simp: spec_needed_columns_def key_columns_def agg_columns_def count_rows_def sum_on_def)
  have "select int64_accessor example_block {''a'', ''b''} =
     Inr \<lparr>block_type = ArrowBlock,
          rows = [[(''a'', 1), (''b'', 10)], [(''a'', 6), (''b'', 20)], [(''a'', 1), (''b'', 5)]]\<rparr>"
    by code_simp
  with prune_projects_onto_needed [OF eligible, of int64_accessor example_block]
    example_block_is_table eligible needed
  show ?thesis by simp
qed

text \<open>
  Claim C10. When the needed column set is empty (the key is absent and every aggregate
  is a pure row count) and the block is a non-empty columnar block,
  \<^verbatim>\<open>_prune_unused_columns\<close> still prunes: it selects zero columns instead of returning
  the block as it is.
\<close>

theorem prune_selects_zero_columns:
  assumes "list_all pure_row_count aggs"
    and "is_TableBlockAccessor A block" and "0 < num_rows A block"
  shows "prune_unused_columns A block KeyNone aggs = select A block {}"
  using assms
  by (simp add: prune_unused_columns_eq pure_row_counts_eligible pure_row_counts_need_nothing)

theorem prune_selects_zero_columns_witness:
  "list_all pure_row_count [count_rows] \<and>
   prune_unused_columns int64_accessor example_block KeyNone [count_rows] =
     Inr \<lparr>block_type = ArrowBlock, rows = [[], [], []]\<rparr>"
proof -
  have counts: "list_all pure_row_count [count_rows]"
    by (simp add: pure_row_count_def reads_plain_column_def count_rows_def)
  have "select int64_accessor example_block {} = Inr \<lparr>block_type = ArrowBlock, rows = [[], [], []]\<rparr>"
    by code_simp
  with prune_selects_zero_columns [OF counts, of int64_accessor example_block]
    example_block_is_table counts
  show ?thesis by simp
qed


section \<open>The map task\<close>

lemma map_task_Inr:
  "map_task A clk idx block n boundaries key aggs = Inr out \<longleftrightarrow>
     (\<exists>pruned partitions parts.
        prune_unused_columns A block key aggs = Inr pruned \<and>
        (case key of KeyNone \<Rightarrow> Inr [pruned] | _ \<Rightarrow> sort_and_partition A pruned boundaries key)
          = Inr partitions \<and>
        map_result (\<lambda>p. combine A p key aggs) partitions = Inr parts \<and>
        out = map Blk parts @ [Meta (get_metadata A pruned (build (builder clk) clk))])"
  unfolding map_task_def Let_def by (auto split: sum.splits)



text \<open>
  Claim C1, as the code has it. The source reassigns \<^verbatim>\<open>block\<close> to the result of
  \<^verbatim>\<open>_prune_unused_columns\<close> before it computes the metadata, so the metadata returned
  by \<^verbatim>\<open>map\<close> is computed over the pruned block (which is the input block whenever
  pruning does not apply), never over a partition block; it is the last element of the
  output, and its execution statistics run from the start of the task to the moment
  the metadata is built.
\<close>

theorem map_metadata_of_pruned_block:
  assumes "map_task A clk idx block n boundaries key aggs = Inr out"
  shows "\<exists>pruned. prune_unused_columns A block key aggs = Inr pruned \<and> out \<noteq> [] \<and>
           last out = Meta (get_metadata A pruned (build (builder clk) clk))"
  using assms unfolding map_task_Inr by auto

theorem map_metadata_of_pruned_block_witness:
  "\<exists>pruned. prune_unused_columns int64_accessor example_block (KeyStr ''a'') [sum_on ''b''] = Inr pruned \<and>
     Meta \<lparr>meta_num_rows = 3, meta_size_bytes = 48,
           meta_exec_stats = \<lparr>start_time_s = 100, end_time_s = 103, wall_time_s = 3\<rparr>\<rparr>
       = Meta (get_metadata int64_accessor pruned (build (builder example_clock) example_clock))"
  using map_metadata_of_pruned_block [OF example_map_run] by simp

text \<open>
  Claim C1 as stated fails: on the example block, whose column \<open>c\<close> is pruned, \<^verbatim>\<open>map\<close>
  returns a metadata of 48 bytes, and the metadata of the input block as passed to
  \<^verbatim>\<open>map\<close> has 72.
\<close>

theorem map_metadata_of_input_block_counterexample:
  "map_task int64_accessor example_clock 0 example_block 2 [[5]] (KeyStr ''a'') [sum_on ''b''] =
     Inr [Blk \<lparr>block_type = ArrowBlock, rows = [[(''a'', 1), (''sum(b)'', 15)]]\<rparr>,
          Blk \<lparr>block_type = ArrowBlock, rows = [[(''a'', 6), (''sum(b)'', 20)]]\<rparr>,
          Meta \<lparr>meta_num_rows = 3, meta_size_bytes = 48,
                meta_exec_stats = \<lparr>start_time_s = 100, end_time_s = 103, wall_time_s = 3\<rparr>\<rparr>] \<and>
   get_metadata int64_accessor example_block (build (builder example_clock) example_clock) \<noteq>
     \<lparr>meta_num_rows = 3, meta_size_bytes = 48,
      meta_exec_stats = \<lparr>start_time_s = 100, end_time_s = 103, wall_time_s = 3\<rparr>\<rparr>"
  by code_simp



subsection \<open>The modelled Partition Planner and local combine\<close>



















section \<open>The merge-reduce task\<close>





text \<open>
  Claim C9. \<^verbatim>\<open>reduce\<close> needs at least one input block: on the empty collection it
  fails with the \<^verbatim>\<open>IndexError\<close> of \<^verbatim>\<open>normalized_blocks[0]\<close>, so every call that returns
  had a non-empty collection.
\<close>

theorem reduce_needs_a_block:
  "reduce A clk key aggs batch_format [] partial_reduce = Inl IndexError \<and>
   (\<forall>blocks r. reduce A clk key aggs batch_format blocks partial_reduce = Inr r \<longrightarrow> blocks \<noteq> [])"
  by (auto simp: reduce_def normalize_block_types_def)

theorem reduce_needs_a_block_witness:
  "reduce int64_accessor example_clock (KeyStr ''a'') [twice_sum_on ''b''] ''pyarrow'' [] False
     = Inl IndexError \<and>
   example_partials \<noteq> []"
  using reduce_needs_a_block [where A = int64_accessor and clk = example_clock
      and key = "KeyStr ''a''" and aggs = "[twice_sum_on ''b'']" and batch_format = "''pyarrow''"
      and partial_reduce = False]
    example_reduce_run
  by blast

section \<open>Determinism\<close>





end
